theory Spec2Isabelle
  imports Main "HOL-Library.Word"
begin

section \<open>The embedded SSH server of rospo (package sshd)\<close>

text \<open>
  The server is modelled function by function. Calls into the SSH library
  (golang.org/x/crypto/ssh), into the helper package utils and into the operating
  system are parameters of the model: their results are taken from an environment
  record or from a per-request schedule, and every theorem holds for all of them.
\<close>

unbundle bit_operations_syntax

type_synonym byte = "8 word"
type_synonym bytes = "byte list"
type_synonym uint32 = "32 word"

subsection \<open>Results of a call that may end the process\<close>

text \<open>
  \<open>log.Fatal\<close>, \<open>log.Fatalln\<close> and \<open>log.Fatalf\<close> print and then call \<open>os.Exit(1)\<close>:
  the caller never gets a result. \<open>Exits\<close> is that outcome, \<open>Returns v\<close> is a
  normal return.
\<close>

datatype 'a outcome = Returns 'a | Exits

subsection \<open>Authorized keys and public-key authentication\<close>

text \<open>
  The environment of \<open>loadAuthorizedKeys\<close> and \<open>keyAuth\<close>; \<open>'k\<close> is the type of
  parsed public keys (\<open>ssh.PublicKey\<close>).
  \<^item> \<open>ExpandUserHome\<close>: \<open>utils.ExpandUserHome\<close>, \<open>None\<close> when it returns an error;
  \<^item> \<open>ReadFile\<close>: \<open>ioutil.ReadFile\<close> on the file system as it is at the moment
    of the call, \<open>None\<close> when it returns an error;
  \<^item> \<open>ParseAuthorizedKey\<close>: \<open>ssh.ParseAuthorizedKey\<close>, which gives the first key
    of its input and the rest of the input, \<open>None\<close> when it returns an error;
  \<^item> \<open>Marshal\<close>: \<open>pubKey.Marshal()\<close>, the wire encoding of a key;
  \<^item> \<open>FingerprintSHA256\<close>: \<open>ssh.FingerprintSHA256\<close>;
  \<^item> \<open>QuoteBody\<close>: what the verb \<open>%q\<close> (\<open>strconv.Quote\<close>) puts between the two
    double quotes it writes: the string with its escape sequences.
\<close>

record 'k keyenv =
  ExpandUserHome :: "string \<Rightarrow> string option"
  ReadFile :: "string \<Rightarrow> bytes option"
  ParseAuthorizedKey :: "bytes \<Rightarrow> ('k \<times> bytes) option"
  Marshal :: "'k \<Rightarrow> bytes"
  FingerprintSHA256 :: "'k \<Rightarrow> string"
  QuoteBody :: "string \<Rightarrow> string"

text \<open>\<open>ssh.ConnMetadata\<close>, as far as \<open>keyAuth\<close> reads it.\<close>

record connMetadata =
  User :: string
  RemoteAddr :: string

text \<open>\<open>ssh.Permissions\<close>.\<close>

record permissions =
  CriticalOptions :: "string \<rightharpoonup> string"
  Extensions :: "string \<rightharpoonup> string"

text \<open>
  A Go \<open>map[string]bool\<close> is a partial map; reading a missing key gives the zero
  value \<open>false\<close>. The keys are \<open>string(pubKey.Marshal())\<close>: the conversion keeps
  the bytes, so the keys of the model are byte lists.
\<close>

definition mapIndex :: "(bytes \<rightharpoonup> bool) \<Rightarrow> bytes \<Rightarrow> bool" where
  "mapIndex m k = (case m k of None \<Rightarrow> False | Some b \<Rightarrow> b)"

text \<open>
  The loop of \<open>loadAuthorizedKeys\<close> (lines 85 to 93):
  \<^verbatim>\<open>
  for len(authorizedKeysBytes) > 0 {
      pubKey, _, _, rest, err := ssh.ParseAuthorizedKey(authorizedKeysBytes)
      if err != nil { log.Fatal(err) }
      authorizedKeysMap[string(pubKey.Marshal())] = true
      authorizedKeysBytes = rest
  }
  \<close>
  Nothing in the loop says that \<open>rest\<close> is shorter than the input, so the loop is a
  partial function: \<open>None\<close> is a loop that never ends.
\<close>

partial_function (option) parseKeys ::
  "(bytes \<Rightarrow> ('k \<times> bytes) option) \<Rightarrow> ('k \<Rightarrow> bytes) \<Rightarrow> bytes \<Rightarrow> (bytes \<rightharpoonup> bool)
     \<Rightarrow> (bytes \<rightharpoonup> bool) outcome option" where
  "parseKeys parse marshal authorizedKeysBytes authorizedKeysMap =
     (if authorizedKeysBytes = [] then Some (Returns authorizedKeysMap)
      else case parse authorizedKeysBytes of
             None \<Rightarrow> Some Exits
           | Some (pubKey, rest) \<Rightarrow>
               parseKeys parse marshal rest (authorizedKeysMap(marshal pubKey \<mapsto> True)))"

definition loadAuthorizedKeys :: "'k keyenv \<Rightarrow> string \<Rightarrow> (bytes \<rightharpoonup> bool) outcome option" where
  "loadAuthorizedKeys env authorizedKeyFile =
     (case ExpandUserHome env authorizedKeyFile of
        None \<Rightarrow> Some Exits
      | Some path \<Rightarrow>
          (case ReadFile env path of
             None \<Rightarrow> Some Exits
           | Some authorizedKeysBytes \<Rightarrow>
               parseKeys (ParseAuthorizedKey env) (Marshal env) authorizedKeysBytes Map.empty))"

text \<open>
  \<open>fmt.Errorf("unknown public key for %q", conn.User())\<close>: \<open>%q\<close> writes a double
  quote, the escaped string and a double quote.
\<close>

definition unknownKeyError :: "'k keyenv \<Rightarrow> string \<Rightarrow> string" where
  "unknownKeyError env user =
     ''unknown public key for '' @ [CHR 0x22] @ QuoteBody env user @ [CHR 0x22]"

text \<open>
  \<open>keyAuth\<close> (lines 97 to 111). The result is \<open>None\<close> when the loader never
  returns, \<open>Some Exits\<close> when the loader ends the process, and otherwise the pair
  of Go results: \<open>Inl\<close> the error text, \<open>Inr\<close> the permissions. The log line at the
  start of the callback has no part in the result and is left out.
\<close>

definition keyAuth ::
  "'k keyenv \<Rightarrow> string \<Rightarrow> connMetadata \<Rightarrow> 'k \<Rightarrow> (string + permissions) outcome option" where
  "keyAuth env authorizedKeyFile conn pubKey =
     (case loadAuthorizedKeys env authorizedKeyFile of
        None \<Rightarrow> None
      | Some Exits \<Rightarrow> Some Exits
      | Some (Returns authorizedKeysMap) \<Rightarrow>
          Some (Returns
            (if mapIndex authorizedKeysMap (Marshal env pubKey)
             then Inr \<lparr>CriticalOptions = Map.empty,
                       Extensions = [''pubkey-fp'' \<mapsto> FingerprintSHA256 env pubKey]\<rparr>
             else Inl (unknownKeyError env (User conn)))))"

text \<open>
  The file cannot be parsed when some round of the loop gets an error from
  \<open>ssh.ParseAuthorizedKey\<close>: on the bytes read, or on the rest left by the keys
  before.
\<close>

inductive parseFails :: "(bytes \<Rightarrow> ('k \<times> bytes) option) \<Rightarrow> bytes \<Rightarrow> bool"
  for parse :: "bytes \<Rightarrow> ('k \<times> bytes) option" where
  parseFailsHere: "bs \<noteq> [] \<Longrightarrow> parse bs = None \<Longrightarrow> parseFails parse bs"
| parseFailsLater:
    "bs \<noteq> [] \<Longrightarrow> parse bs = Some (pubKey, rest) \<Longrightarrow> parseFails parse rest
       \<Longrightarrow> parseFails parse bs"

text \<open>
  An example environment for evaluation: keys are byte strings that are their own
  wire encoding, the authorized-keys file \<open>''/home/u/authorized_keys''\<close> holds one
  key per line (each line ended by a newline, byte 10), every other file is
  missing, and no character of a user name needs an escape.
\<close>

fun firstLine :: "bytes \<Rightarrow> bytes \<Rightarrow> (bytes \<times> bytes) option" where
  "firstLine acc [] = (if acc = [] then None else Some (rev acc, []))"
| "firstLine acc (b # bs) =
     (if b = 10 then (if acc = [] then None else Some (rev acc, bs))
      else firstLine (b # acc) bs)"

definition exampleEnv :: "bytes keyenv" where
  "exampleEnv =
     \<lparr>ExpandUserHome = (\<lambda>p. if p = ''~/authorized_keys'' then Some ''/home/u/authorized_keys''
                             else if p = '''' then None else Some p),
      ReadFile = (\<lambda>p. if p = ''/home/u/authorized_keys'' then Some [1, 2, 10, 3, 10]
                       else if p = ''/etc/garbled'' then Some [1, 10, 10]
                       else None),
      ParseAuthorizedKey = firstLine [],
      Marshal = (\<lambda>k. k),
      FingerprintSHA256 = (\<lambda>k. if k = [3] then ''SHA256:three'' else ''SHA256:other''),
      QuoteBody = (\<lambda>s. s)\<rparr>"

definition bob :: connMetadata where
  "bob = \<lparr>User = ''bob'', RemoteAddr = ''10.0.0.7:50000''\<rparr>"


subsection \<open>Global requests: the wire format\<close>

text \<open>
  \<open>ssh.Unmarshal\<close> into \<open>struct { Addr string; Port uint32 }\<close> and \<open>ssh.Marshal\<close>
  of \<open>struct { Port uint32 }\<close> belong to the SSH library. The handlers take them
  from a record, \<open>None\<close> standing for an error of \<open>ssh.Unmarshal\<close>.
\<close>

record wire =
  UnmarshalAddrPort :: "bytes \<Rightarrow> (string \<times> uint32) option"
  MarshalPort :: "uint32 \<Rightarrow> bytes"

text \<open>
  The instance used for evaluation follows RFC 4251: a \<open>uint32\<close> is four bytes,
  the most significant first; a \<open>string\<close> is its length as a \<open>uint32\<close> and then
  its bytes; nothing may follow the last field.
\<close>

definition parseUint32 :: "bytes \<Rightarrow> (uint32 \<times> bytes) option" where
  "parseUint32 data =
     (case data of
        b0 # b1 # b2 # b3 # rest \<Rightarrow>
          Some (push_bit 24 (ucast b0) OR push_bit 16 (ucast b1) OR
                push_bit 8 (ucast b2) OR ucast b3, rest)
      | _ \<Rightarrow> None)"

definition byteString :: "bytes \<Rightarrow> string" where
  "byteString bs = map (\<lambda>b. char_of (unat b)) bs"

definition parseString :: "bytes \<Rightarrow> (string \<times> bytes) option" where
  "parseString data =
     (case parseUint32 data of
        None \<Rightarrow> None
      | Some (n, rest) \<Rightarrow>
          if length rest < unat n then None
          else Some (byteString (take (unat n) rest), drop (unat n) rest))"

definition unmarshalAddrPort :: "bytes \<Rightarrow> (string \<times> uint32) option" where
  "unmarshalAddrPort data =
     (case parseString data of
        None \<Rightarrow> None
      | Some (a, rest) \<Rightarrow>
          (case parseUint32 rest of
             None \<Rightarrow> None
           | Some (p, rest') \<Rightarrow> if rest' = [] then Some (a, p) else None))"

definition marshalUint32 :: "uint32 \<Rightarrow> bytes" where
  "marshalUint32 p =
     [ucast (drop_bit 24 p), ucast (drop_bit 16 p), ucast (drop_bit 8 p), ucast p]"

definition sshWire :: wire where
  "sshWire = \<lparr>UnmarshalAddrPort = unmarshalAddrPort, MarshalPort = marshalUint32\<rparr>"

text \<open>\<open>fmt.Sprintf("[%s]:%d", laddr, lport)\<close>: the key of the registry.\<close>

definition digit :: "nat \<Rightarrow> char" where
  "digit d = ''0123456789'' ! d"

fun decimal :: "nat \<Rightarrow> string" where
  "decimal n = (if n < 10 then [digit n] else decimal (n div 10) @ [digit (n mod 10)])"

definition fmtAddr :: "string \<Rightarrow> uint32 \<Rightarrow> string" where
  "fmtAddr laddr lport = ''['' @ laddr @ '']:'' @ decimal (unat lport)"

text \<open>\<open>strings.Contains(s, substr)\<close>: \<open>substr\<close> starts at some position of \<open>s\<close>.\<close>

fun hasPrefix :: "string \<Rightarrow> string \<Rightarrow> bool" where
  "hasPrefix s [] = True"
| "hasPrefix [] (c # cs) = False"
| "hasPrefix (d # ds) (c # cs) = (d = c \<and> hasPrefix ds cs)"

fun Contains :: "string \<Rightarrow> string \<Rightarrow> bool" where
  "Contains [] substr = (substr = [])"
| "Contains (c # s) substr = (hasPrefix (c # s) substr \<or> Contains s substr)"

subsection \<open>Global requests: the state of the server and what a handler does\<close>

text \<open>
  A \<open>net.Listener\<close> is a handle; \<open>net.Listen\<close> gives a new one each time it
  succeeds. What the goroutines do is written down in order as a trace of actions:
  \<^item> \<open>Log f\<close>: a \<open>log.Printf\<close> or \<open>log.Println\<close> with the format or text \<open>f\<close>;
  \<^item> \<open>Reply ok payload\<close>: the call \<open>req.Reply(ok, payload)\<close> (the library puts the
    reply on the wire when the request asked for one);
  \<^item> \<open>Lock\<close>, \<open>Unlock\<close>: on \<open>s.forwadsMu\<close>;
  \<^item> \<open>Close ln\<close>: \<open>ln.Close()\<close>;
  \<^item> \<open>SendStop\<close>: the handler reaches \<open>s.checkAliveStop <- true\<close>;
  \<^item> \<open>Listen addr r\<close>: \<open>net.Listen("tcp", addr)\<close> with its result, \<open>None\<close> an error;
  \<^item> \<open>GoForwardSession ln laddr lport\<close>:
    \<open>go handleTcpIpForwardSession(s.client, ln, laddr, lport)\<close>;
  \<^item> \<open>GoCheckAlive ln addr\<close>: \<open>go checkAliveFun(s, ln, addr)\<close>;
  \<^item> \<open>Store addr ln\<close>: \<open>s.forwards[addr] = ln\<close>;
  \<^item> \<open>Delete addr\<close>: \<open>delete(s.forwards, addr)\<close>;
  \<^item> \<open>Probe err\<close>: \<open>s.client.SendRequest("checkalive@rospo", true, nil)\<close>, \<open>err\<close>
    telling whether it returned an error.
\<close>

type_synonym listener = nat

datatype action =
    Log string
  | Reply bool bytes
  | Lock
  | Unlock
  | Close listener
  | SendStop
  | Listen string "listener option"
  | GoForwardSession listener string uint32
  | GoCheckAlive listener string
  | Store string listener
  | Delete string
  | Probe bool

text \<open>
  The state that the handlers and the supervisors share:
  \<^item> \<open>forwards\<close>: the map \<open>s.forwards\<close>;
  \<^item> \<open>closed\<close>: the listeners on which \<open>Close\<close> has been called;
  \<^item> \<open>created\<close>: the listeners that \<open>net.Listen\<close> has returned, each with the
    address it was asked for; such a listener is bound until it is closed;
  \<^item> \<open>supervisors\<close>: the running \<open>checkAliveFun\<close> goroutines, each with its
    arguments \<open>ln\<close> and \<open>addr\<close>;
  \<^item> \<open>sessions\<close>: the \<open>handleTcpIpForwardSession\<close> goroutines that were started;
  \<^item> \<open>nextListener\<close>: the handle that the next successful \<open>net.Listen\<close> returns;
  \<^item> \<open>blocked\<close>: the handler waits forever at \<open>s.checkAliveStop <- true\<close>,
    holding the mutex, because no goroutine receives from the channel;
  \<^item> \<open>trace\<close>: the actions so far.
\<close>

record world =
  forwards :: "string \<rightharpoonup> listener"
  closed :: "listener set"
  created :: "(listener \<times> string) list"
  supervisors :: "(listener \<times> string) list"
  sessions :: "(listener \<times> string \<times> uint32) list"
  nextListener :: listener
  blocked :: bool
  trace :: "action list"

text \<open>\<open>NewSshServer\<close>: an empty registry, and nothing has happened yet.\<close>

definition newSshServer :: world where
  "newSshServer =
     \<lparr>forwards = Map.empty, closed = {}, created = [], supervisors = [], sessions = [],
      nextListener = 0, blocked = False, trace = []\<rparr>"

definition emit :: "action \<Rightarrow> world \<Rightarrow> world" where
  "emit a w = w\<lparr>trace := trace w @ [a]\<rparr>"

definition lnClose :: "listener \<Rightarrow> world \<Rightarrow> world" where
  "lnClose ln w = emit (Close ln) (w\<lparr>closed := insert ln (closed w)\<rparr>)"

text \<open>The listeners bound for an address: created for it and not closed.\<close>

definition boundFor :: "world \<Rightarrow> string \<Rightarrow> listener list" where
  "boundFor w addr = [ln \<leftarrow> map fst [c \<leftarrow> created w. snd c = addr]. ln \<notin> closed w]"

subsection \<open>The supervisor \<open>checkAliveFun\<close>\<close>

text \<open>
  \<open>checkAliveFun\<close> (lines 202 to 223) waits in a \<open>select\<close>. The cases that the
  \<open>select\<close> takes, in order, are the input of the model: \<open>TickerC err\<close> is a tick,
  \<open>err\<close> telling whether the probe sent on that tick returned an error;
  \<open>CheckAliveStop\<close> is a value received from \<open>s.checkAliveStop\<close>. When the cases
  run out the goroutine still waits. A goroutine that returns leaves
  \<open>supervisors\<close>.
\<close>

datatype selectCase = TickerC bool | CheckAliveStop

definition supervisorReturns :: "listener \<Rightarrow> string \<Rightarrow> world \<Rightarrow> world" where
  "supervisorReturns ln addr w = w\<lparr>supervisors := remove1 (ln, addr) (supervisors w)\<rparr>"

definition deleteForward :: "string \<Rightarrow> world \<Rightarrow> world" where
  "deleteForward addr w = emit (Delete addr) (w\<lparr>forwards := (forwards w)(addr := None)\<rparr>)"

fun checkAliveLoop :: "listener \<Rightarrow> string \<Rightarrow> selectCase list \<Rightarrow> world \<Rightarrow> world" where
  "checkAliveLoop ln addr [] w = w"
| "checkAliveLoop ln addr (TickerC err # cs) w =
     (if err
      then supervisorReturns ln addr
             (emit Unlock
               (deleteForward addr
                 (emit Lock
                   (lnClose ln
                     (emit (Log ''[SSHD] forward endpoint not available anymore. Closing socket'')
                       (emit (Probe True) w))))))
      else checkAliveLoop ln addr cs (emit (Probe False) w))"
| "checkAliveLoop ln addr (CheckAliveStop # cs) w =
     supervisorReturns ln addr (emit (Log ''[SSHD] stop keep alive'') w)"

definition checkAliveFun :: "listener \<Rightarrow> string \<Rightarrow> selectCase list \<Rightarrow> world \<Rightarrow> world" where
  "checkAliveFun ln addr cs w =
     checkAliveLoop ln addr cs (emit (Log ''[SSHD] starting check for forward availability'') w)"

subsection \<open>The request loop \<open>handleRequests\<close>\<close>

text \<open>\<open>ssh.Request\<close>, as far as the handler reads it.\<close>

record request =
  Type :: string
  WantReply :: bool
  Payload :: bytes

text \<open>
  The model follows one \<open>handleRequests\<close> goroutine and the supervisors it starts.
  Within a request the only step of another goroutine is that of the supervisor
  that takes the stop signal; a probe that fails is a run of \<open>checkAliveFun\<close> on
  the state between two requests.
\<close>

text \<open>
  What the handler cannot decide by itself while it serves one request:
  \<^item> \<open>pick\<close>: which of the running supervisors receives the value sent on
    \<open>s.checkAliveStop\<close>. The channel is one field of the server, shared by all
    supervisors, and Go does not say which of several receivers gets a value: it
    is supervisor number \<open>pick mod n\<close> of the \<open>n\<close> running ones;
  \<^item> \<open>listenOk\<close>: whether \<open>net.Listen\<close> succeeds.
\<close>

record sched =
  pick :: nat
  listenOk :: bool

text \<open>
  \<open>s.checkAliveStop <- true\<close> (line 186). The channel has no buffer: the send ends
  when a supervisor takes the value in its \<open>select\<close>, and that supervisor then runs
  its stop case. With no supervisor running the send never ends.
\<close>

definition sendStop :: "nat \<Rightarrow> world \<Rightarrow> world" where
  "sendStop n w =
     (if supervisors w = [] then (emit SendStop w)\<lparr>blocked := True\<rparr>
      else case supervisors w ! (n mod length (supervisors w)) of
             (ln, addr) \<Rightarrow> checkAliveLoop ln addr [CheckAliveStop] (emit SendStop w))"

text \<open>Lines 179 to 187: the lookup of the old binding under the mutex.\<close>

definition stopOld :: "nat \<Rightarrow> string \<Rightarrow> world \<Rightarrow> world" where
  "stopOld n addr w =
     (case forwards w addr of
        Some ln \<Rightarrow> sendStop n (lnClose ln (emit (Log ''[SSHD] closing old socket'') (emit Lock w)))
      | None \<Rightarrow> emit Lock w)"

text \<open>\<open>net.Listen("tcp", addr)\<close> when it succeeds.\<close>

definition netListen :: "string \<Rightarrow> world \<Rightarrow> world" where
  "netListen addr w =
     emit (Listen addr (Some (nextListener w)))
       (w\<lparr>created := created w @ [(nextListener w, addr)],
          nextListener := Suc (nextListener w)\<rparr>)"

text \<open>Lines 196 to 229: after a successful \<open>net.Listen\<close> that returned \<open>ln\<close>.\<close>

definition installNew :: "wire \<Rightarrow> listener \<Rightarrow> string \<Rightarrow> uint32 \<Rightarrow> string \<Rightarrow> world \<Rightarrow> world" where
  "installNew lib ln laddr lport addr w =
     (let w1 = emit (Log ''[SSHD] tcpip-forward listening for %s'') w;
          w2 = emit (Reply True (MarshalPort lib lport)) w1;
          w3 = emit (GoForwardSession ln laddr lport)
                 (w2\<lparr>sessions := sessions w2 @ [(ln, laddr, lport)]\<rparr>);
          w4 = emit (GoCheckAlive ln addr)
                 (w3\<lparr>supervisors := supervisors w3 @ [(ln, addr)]\<rparr>);
          w5 = emit Lock w4;
          w6 = emit (Store addr ln) (w5\<lparr>forwards := (forwards w5)(addr \<mapsto> ln)\<rparr>)
      in emit Unlock w6)"

text \<open>The case \<open>"tcpip-forward"\<close> (lines 166 to 229).\<close>

definition tcpipForward :: "wire \<Rightarrow> sched \<Rightarrow> request \<Rightarrow> world \<Rightarrow> world" where
  "tcpipForward lib sch req w =
     (case UnmarshalAddrPort lib (Payload req) of
        None \<Rightarrow> emit (Reply False []) (emit (Log ''[SSHD] Unable to unmarshal payload'') w)
      | Some (laddr, lport) \<Rightarrow>
          (let addr = fmtAddr laddr lport;
               w1 = stopOld (pick sch) addr w
           in if blocked w1 then w1
              else let w2 = emit Unlock w1
                   in if listenOk sch
                      then installNew lib (nextListener w2) laddr lport addr (netListen addr w2)
                      else emit (Reply False [])
                             (emit (Log ''[SSHD] listen failed for %s %s'')
                               (emit (Listen addr None) w2))))"

text \<open>The case \<open>"cancel-tcpip-forward"\<close> (lines 231 to 247).\<close>

definition cancelTcpipForward :: "wire \<Rightarrow> request \<Rightarrow> world \<Rightarrow> world" where
  "cancelTcpipForward lib req w =
     (case UnmarshalAddrPort lib (Payload req) of
        None \<Rightarrow> emit (Reply False []) (emit (Log ''[SSHD] Unable to unmarshal payload'') w)
      | Some (laddr, lport) \<Rightarrow>
          (case forwards w (fmtAddr laddr lport) of
             Some ln \<Rightarrow> lnClose ln w
           | None \<Rightarrow> w))"

text \<open>The \<open>default\<close> case (lines 248 to 253); \<open>req.Reply(true, nil)\<close> has no payload.\<close>

definition otherRequest :: "request \<Rightarrow> world \<Rightarrow> world" where
  "otherRequest req w =
     (if Contains (Type req) ''keepalive'' then emit (Reply True []) w
      else emit (Log ''[SSHD] received out-of-band request: %+v'') w)"

text \<open>One round of the loop: the \<open>switch\<close> on \<open>req.Type\<close>.\<close>

definition handleRequest :: "wire \<Rightarrow> sched \<Rightarrow> request \<Rightarrow> world \<Rightarrow> world" where
  "handleRequest lib sch req w =
     (if Type req = ''tcpip-forward'' then tcpipForward lib sch req w
      else if Type req = ''cancel-tcpip-forward'' then cancelTcpipForward lib req w
      else otherRequest req w)"

text \<open>
  \<open>for req := range reqs\<close>: the requests are served one after the other, each with
  its schedule; a handler that is blocked serves no further request.
\<close>

fun handleRequests :: "wire \<Rightarrow> (sched \<times> request) list \<Rightarrow> world \<Rightarrow> world" where
  "handleRequests lib [] w = w"
| "handleRequests lib ((sch, req) # reqs) w =
     (let w' = handleRequest lib sch req w
      in if blocked w' then w' else handleRequests lib reqs w')"

subsection \<open>The channel loop \<open>handleChannels\<close>\<close>

text \<open>\<open>ssh.NewChannel\<close>, the reasons of \<open>ssh.RejectionReason\<close>, and what the loop does
  with one channel.\<close>

record newChannel =
  ChannelType :: string
  ExtraData :: bytes

datatype rejectionReason = Prohibited | ConnectionFailed | UnknownChannelType | ResourceShortage

datatype channelAction =
    GoHandleChannelSession newChannel
  | GoHandleChannelDirect newChannel
  | Reject rejectionReason string

definition handleChannel :: "newChannel \<Rightarrow> channelAction" where
  "handleChannel ch =
     (let t = ChannelType ch
      in if t = ''session'' then GoHandleChannelSession ch
         else if t = ''direct-tcpip'' then GoHandleChannelDirect ch
         else Reject UnknownChannelType (''unknown channel type: '' @ t))"

fun handleChannels :: "newChannel list \<Rightarrow> channelAction list" where
  "handleChannels [] = []"
| "handleChannels (ch # chans) = handleChannel ch # handleChannels chans"

subsection \<open>Requests used for evaluation\<close>

definition forwardPayload :: "byte \<Rightarrow> byte \<Rightarrow> bytes" where
  "forwardPayload a p = [0, 0, 0, 1, a, 0, 0, 0, p]"

definition tcpipForwardReq :: "byte \<Rightarrow> byte \<Rightarrow> request" where
  "tcpipForwardReq a p =
     \<lparr>Type = ''tcpip-forward'', WantReply = True, Payload = forwardPayload a p\<rparr>"

definition cancelReq :: "byte \<Rightarrow> byte \<Rightarrow> request" where
  "cancelReq a p =
     \<lparr>Type = ''cancel-tcpip-forward'', WantReply = True, Payload = forwardPayload a p\<rparr>"

definition listenSucceeds :: "nat \<Rightarrow> sched" where
  "listenSucceeds n = \<lparr>pick = n, listenOk = True\<rparr>"

definition listenFails :: "nat \<Rightarrow> sched" where
  "listenFails n = \<lparr>pick = n, listenOk = False\<rparr>"

definition oneForward :: world where
  "oneForward =
     handleRequests sshWire [(listenSucceeds 0, tcpipForwardReq 97 1)] newSshServer"

definition twoForwards :: world where
  "twoForwards =
     handleRequests sshWire
       [(listenSucceeds 0, tcpipForwardReq 97 1), (listenSucceeds 0, tcpipForwardReq 98 2)]
       newSshServer"

text \<open>The replies in a trace, in the order in which they were sent.\<close>

fun repliesOf :: "action list \<Rightarrow> (bool \<times> bytes) list" where
  "repliesOf [] = []"
| "repliesOf (Reply ok payload # as) = (ok, payload) # repliesOf as"
| "repliesOf (a # as) = repliesOf as"

section \<open>Properties of the authentication path\<close>

subsection \<open>The loader\<close>

lemma parseKeys_values:
  assumes "parseKeys parse marshal bs m = Some r"
  shows "\<forall>m'. r = Returns m' \<longrightarrow> (\<forall>k b. m k = Some b \<longrightarrow> b) \<longrightarrow> (\<forall>k b. m' k = Some b \<longrightarrow> b)"
proof (rule parseKeys.raw_induct
    [OF _ assms, where P = "\<lambda>parse marshal bs m r.
       \<forall>m'. r = Returns m' \<longrightarrow> (\<forall>k b. m k = Some b \<longrightarrow> b) \<longrightarrow> (\<forall>k b. m' k = Some b \<longrightarrow> b)"],
    goal_cases)
  case (1 pk parse marshal bs m r)
  show ?case
  proof (cases "bs = []")
    case True
    with 1(2) show ?thesis by auto
  next
    case False
    show ?thesis
    proof (cases "parse bs")
      case None
      with False 1(2) show ?thesis by auto
    next
      case (Some a)
      obtain k rest where a: "a = (k, rest)" by (cases a)
      from False Some a 1(2) have "pk parse marshal rest (m(marshal k \<mapsto> True)) = Some r"
        by simp
      from 1(1)[OF this] show ?thesis by (auto split: if_splits)
    qed
  qed
qed

text \<open>Every key of the loaded map is mapped to \<open>true\<close>: indexing the map is membership.\<close>

lemma mapIndex_loaded:
  "loadAuthorizedKeys env f = Some (Returns m) \<Longrightarrow> mapIndex m k \<longleftrightarrow> k \<in> dom m"
  using parseKeys_values[of "ParseAuthorizedKey env" "Marshal env" _ Map.empty "Returns m"]
  by (auto simp: loadAuthorizedKeys_def mapIndex_def split: option.splits)

lemma parseFails_Exits:
  "parseFails parse bs \<Longrightarrow> parseKeys parse marshal bs m = Some Exits"
proof (induction arbitrary: m rule: parseFails.induct)
  case (parseFailsHere bs)
  then show ?case by (subst parseKeys.simps) simp
next
  case (parseFailsLater bs pubKey rest)
  then show ?case by (subst parseKeys.simps) simp
qed

text \<open>
  The loop ends whenever a successful parse leaves less than it was given, as
  \<open>ssh.ParseAuthorizedKey\<close> does (it consumes at least the first line): the
  loader then either returns a set or ends the process.
\<close>

lemma parseKeys_ends:
  assumes "\<And>bs k rest. parse bs = Some (k, rest) \<Longrightarrow> length rest < length bs"
  shows "\<exists>r. parseKeys parse marshal bs m = Some r"
proof (induction "length bs" arbitrary: bs m rule: less_induct)
  case less
  show ?case
  proof (cases "bs = []")
    case True
    then show ?thesis by (subst parseKeys.simps) simp
  next
    case False
    show ?thesis
    proof (cases "parse bs")
      case None
      with False show ?thesis by (subst parseKeys.simps) simp
    next
      case (Some a)
      obtain k rest where a: "a = (k, rest)" by (cases a)
      with Some assms have "length rest < length bs" by auto
      from less[OF this] obtain r
        where "parseKeys parse marshal rest (m(marshal k \<mapsto> True)) = Some r"
        by blast
      with False Some a show ?thesis by (subst parseKeys.simps) simp
    qed
  qed
qed

lemma loadAuthorizedKeys_ends:
  assumes "\<And>bs k rest. ParseAuthorizedKey env bs = Some (k, rest) \<Longrightarrow> length rest < length bs"
  shows "\<exists>r. loadAuthorizedKeys env authorizedKeyFile = Some r"
  using parseKeys_ends[of "ParseAuthorizedKey env" "Marshal env", OF assms]
  by (simp add: loadAuthorizedKeys_def split: option.splits)

lemma exampleEnv_loads:
  "loadAuthorizedKeys exampleEnv ''~/authorized_keys'' =
     Some (Returns [[1, 2] \<mapsto> True, [3] \<mapsto> True])"
  by (simp add: loadAuthorizedKeys_def exampleEnv_def parseKeys.simps)

lemma exampleEnv_garbled: "parseFails (firstLine []) [1, 10, 10]"
proof (rule parseFailsLater)
  show "firstLine [] [1, 10, 10] = Some ([1], [10])" by simp
  show "parseFails (firstLine []) [10]" by (rule parseFailsHere) simp_all
qed simp

subsection \<open>C1: the public-key callback\<close>

text \<open>
  C1, as the specification states it: the callback succeeds exactly when the wire
  bytes of the candidate key are in the freshly loaded set, with the single
  extension \<open>pubkey-fp\<close>, and fails with the error text
  \<open>unknown public key for <user>\<close> otherwise. The error text of the code is not
  that one: \<open>%q\<close> puts the user name between double quotes. For the user \<open>bob\<close> and
  a key that is not in the file, the text is \<open>unknown public key for "bob"\<close>.
\<close>

theorem keyAuth_error_text_counterexample:
  "mapIndex [[1, 2] \<mapsto> True, [3] \<mapsto> True] [4] = False \<and>
   keyAuth exampleEnv ''~/authorized_keys'' bob [4] =
     Some (Returns (Inl (''unknown public key for '' @ [CHR 0x22] @ ''bob'' @ [CHR 0x22]))) \<and>
   keyAuth exampleEnv ''~/authorized_keys'' bob [4] \<noteq>
     Some (Returns (Inl (''unknown public key for '' @ User bob)))"
proof -
  have "Marshal exampleEnv [4] = [4]"
    by (simp add: exampleEnv_def)
  then have "keyAuth exampleEnv ''~/authorized_keys'' bob [4] =
          Some (Returns (Inl (unknownKeyError exampleEnv ''bob'')))"
    by (simp add: keyAuth_def exampleEnv_loads mapIndex_def bob_def)
  moreover have "unknownKeyError exampleEnv ''bob'' =
                   ''unknown public key for '' @ [CHR 0x22] @ ''bob'' @ [CHR 0x22]"
    by (simp add: unknownKeyError_def exampleEnv_def)
  ultimately show ?thesis
    by (simp add: mapIndex_def bob_def)
qed

text \<open>
  C1, amended: whenever the loader returns a set, the callback returns; it returns
  permissions exactly when the wire bytes of the candidate key are in that set, the
  permissions have no critical option and the single extension \<open>pubkey-fp\<close> with
  the SHA-256 fingerprint of the key, and otherwise it returns the error text
  \<open>unknown public key for\<close> followed by the user name as \<open>%q\<close> writes it (between
  double quotes, escaped).
\<close>

theorem keyAuth_authorized_iff:
  assumes "loadAuthorizedKeys env authorizedKeyFile = Some (Returns authorizedKeys)"
  shows "keyAuth env authorizedKeyFile conn pubKey =
           Some (Returns
             (if Marshal env pubKey \<in> dom authorizedKeys
              then Inr \<lparr>CriticalOptions = Map.empty,
                        Extensions = [''pubkey-fp'' \<mapsto> FingerprintSHA256 env pubKey]\<rparr>
              else Inl (''unknown public key for '' @ [CHR 0x22] @
                        QuoteBody env (User conn) @ [CHR 0x22])))"
  using assms mapIndex_loaded[OF assms, of "Marshal env pubKey"]
  by (simp add: keyAuth_def unknownKeyError_def)

theorem keyAuth_authorized_iff_witness:
  "loadAuthorizedKeys exampleEnv ''~/authorized_keys'' =
     Some (Returns [[1, 2] \<mapsto> True, [3] \<mapsto> True]) \<and>
   keyAuth exampleEnv ''~/authorized_keys'' bob [3] =
     Some (Returns (Inr \<lparr>CriticalOptions = Map.empty,
                          Extensions = [''pubkey-fp'' \<mapsto> ''SHA256:three'']\<rparr>))"
  using keyAuth_authorized_iff[OF exampleEnv_loads, of bob "[3]"] exampleEnv_loads
  by (simp add: exampleEnv_def)

subsection \<open>C7: an authorized-keys file that cannot be read or parsed\<close>

text \<open>
  C7, as the specification states it: when the file cannot be read or parsed at an
  authentication attempt, the attempt fails and the process goes on. In the code
  the loader ends the process: with a missing file the callback returns neither
  an error nor permissions.
\<close>

theorem keyAuth_missing_file_counterexample:
  "ExpandUserHome exampleEnv ''/etc/missing'' = Some ''/etc/missing'' \<and>
   ReadFile exampleEnv ''/etc/missing'' = None \<and>
   keyAuth exampleEnv ''/etc/missing'' bob [3] = Some Exits \<and>
   keyAuth exampleEnv ''/etc/missing'' bob [3] \<noteq>
     Some (Returns (Inl (unknownKeyError exampleEnv (User bob))))"
  by (simp add: keyAuth_def loadAuthorizedKeys_def exampleEnv_def)

text \<open>
  C7, amended: when the path cannot be expanded, the file cannot be read or the
  file cannot be parsed at an authentication attempt, \<open>log.Fatal\<close> ends the server
  process and the callback returns nothing.
\<close>

theorem keyAuth_exits_on_bad_file:
  assumes "ExpandUserHome env authorizedKeyFile = None \<or>
           (\<exists>path. ExpandUserHome env authorizedKeyFile = Some path \<and>
              (ReadFile env path = None \<or>
               (\<exists>bs. ReadFile env path = Some bs \<and> parseFails (ParseAuthorizedKey env) bs)))"
  shows "keyAuth env authorizedKeyFile conn pubKey = Some Exits"
  using assms
  by (auto simp: keyAuth_def loadAuthorizedKeys_def parseFails_Exits)

theorem keyAuth_exits_on_bad_file_witness:
  "ReadFile exampleEnv ''/etc/garbled'' = Some [1, 10, 10] \<and>
   parseFails (ParseAuthorizedKey exampleEnv) [1, 10, 10] \<and>
   keyAuth exampleEnv ''/etc/garbled'' bob [3] = Some Exits"
proof -
  have p: "parseFails (ParseAuthorizedKey exampleEnv) [1, 10, 10]"
    using exampleEnv_garbled by (simp add: exampleEnv_def)
  have e: "ExpandUserHome exampleEnv ''/etc/garbled'' = Some ''/etc/garbled''"
    by (simp add: exampleEnv_def)
  have r: "ReadFile exampleEnv ''/etc/garbled'' = Some [1, 10, 10]"
    by (simp add: exampleEnv_def)
  from e r p have
    "ExpandUserHome exampleEnv ''/etc/garbled'' = None \<or>
     (\<exists>path. ExpandUserHome exampleEnv ''/etc/garbled'' = Some path \<and>
        (ReadFile exampleEnv path = None \<or>
         (\<exists>bs. ReadFile exampleEnv path = Some bs \<and>
            parseFails (ParseAuthorizedKey exampleEnv) bs)))"
    by blast
  from keyAuth_exits_on_bad_file[OF this] r p show ?thesis by simp
qed


section \<open>Properties of the request loop\<close>

subsection \<open>The wire format and the strings\<close>

lemma be32_roundtrip:
  fixes p :: uint32
  shows "push_bit 24 (ucast (ucast (drop_bit 24 p) :: byte)) OR
         push_bit 16 (ucast (ucast (drop_bit 16 p) :: byte)) OR
         push_bit 8 (ucast (ucast (drop_bit 8 p) :: byte)) OR
         ucast (ucast p :: byte) = p"
proof (rule bit_word_eqI)
  fix n :: nat
  assume "n < LENGTH(32)"
  then have n: "n < 32" by simp
  consider "n < 8" | "8 \<le> n" "n < 16" | "16 \<le> n" "n < 24" | "24 \<le> n" "n < 32"
    using n by linarith
  then show "bit (push_bit 24 (ucast (ucast (drop_bit 24 p) :: byte)) OR
         push_bit 16 (ucast (ucast (drop_bit 16 p) :: byte)) OR
         push_bit 8 (ucast (ucast (drop_bit 8 p) :: byte)) OR
         ucast (ucast p :: byte) :: uint32) n = bit p n"
    by cases (auto simp: bit_simps)
qed

text \<open>The four bytes of a marshaled port are read back as that port.\<close>

lemma parseUint32_marshalUint32: "parseUint32 (marshalUint32 p @ rest) = Some (p, rest)"
  by (simp add: parseUint32_def marshalUint32_def be32_roundtrip)

lemma hasPrefix_iff: "hasPrefix s p \<longleftrightarrow> (\<exists>q. s = p @ q)"
  by (induction s p rule: hasPrefix.induct) auto

text \<open>\<open>Contains\<close> is the substring relation.\<close>

lemma Contains_iff: "Contains s substr \<longleftrightarrow> (\<exists>pre post. s = pre @ substr @ post)"
proof (induction s)
  case Nil
  then show ?case by auto
next
  case (Cons c s)
  show ?case
  proof
    assume "Contains (c # s) substr"
    then consider "hasPrefix (c # s) substr" | "Contains s substr" by auto
    then show "\<exists>pre post. c # s = pre @ substr @ post"
    proof cases
      case 1
      then obtain q where "c # s = substr @ q" by (auto simp: hasPrefix_iff)
      then have "c # s = [] @ substr @ q" by simp
      then show ?thesis by blast
    next
      case 2
      with Cons obtain pre post where "s = pre @ substr @ post" by auto
      then have "c # s = (c # pre) @ substr @ post" by simp
      then show ?thesis by blast
    qed
  next
    assume "\<exists>pre post. c # s = pre @ substr @ post"
    then obtain pre post where e: "c # s = pre @ substr @ post" by auto
    show "Contains (c # s) substr"
    proof (cases pre)
      case Nil
      with e have "hasPrefix (c # s) substr" by (auto simp: hasPrefix_iff)
      then show ?thesis by simp
    next
      case (Cons a pre')
      with e have "s = pre' @ substr @ post" by simp
      with Cons.IH have "Contains s substr" by blast
      then show ?thesis by simp
    qed
  qed
qed

lemma repliesOf_append: "repliesOf (xs @ ys) = repliesOf xs @ repliesOf ys"
  by (induction xs rule: repliesOf.induct) auto

subsection \<open>The example requests and states\<close>

lemma forwardPayload_a1: "UnmarshalAddrPort sshWire (forwardPayload 97 1) = Some (''a'', 1)"
  by code_simp

lemma forwardPayload_a0: "UnmarshalAddrPort sshWire (forwardPayload 97 0) = Some (''a'', 0)"
  by code_simp

lemma short_payload: "UnmarshalAddrPort sshWire [0, 0] = None"
  by code_simp

lemma fmtAddr_a1: "fmtAddr ''a'' 1 = ''[a]:1''"
  by code_simp

lemma fmtAddr_a0: "fmtAddr ''a'' 0 = ''[a]:0''"
  by code_simp

lemma oneForward_fields:
  "forwards oneForward ''[a]:1'' = Some 0"
  "closed oneForward = {}"
  "supervisors oneForward = [(0, ''[a]:1'')]"
  "blocked oneForward = False"
  unfolding oneForward_def by code_simp+


subsection \<open>The lookup of the old binding\<close>

lemma stopOld_None:
  "forwards w addr = None \<Longrightarrow> stopOld n addr w = w\<lparr>trace := trace w @ [Lock]\<rparr>"
  by (simp add: stopOld_def emit_def)

lemma stopOld_Some:
  assumes "forwards w addr = Some ln" and "supervisors w \<noteq> []"
  shows "stopOld n addr w =
           w\<lparr>closed := insert ln (closed w),
             supervisors := remove1 (supervisors w ! (n mod length (supervisors w))) (supervisors w),
             trace := trace w @ [Lock, Log ''[SSHD] closing old socket'', Close ln, SendStop,
                                 Log ''[SSHD] stop keep alive'']\<rparr>"
  using assms
  by (cases "supervisors w ! (n mod length (supervisors w))")
     (simp add: stopOld_def sendStop_def emit_def lnClose_def supervisorReturns_def)

lemma stopOld_blocks:
  assumes "forwards w addr = Some ln" and "supervisors w = []"
  shows "stopOld n addr w =
           w\<lparr>closed := insert ln (closed w), blocked := True,
             trace := trace w @ [Lock, Log ''[SSHD] closing old socket'', Close ln, SendStop]\<rparr>"
  using assms
  by (simp add: stopOld_def sendStop_def emit_def lnClose_def)

text \<open>
  The handler gets past the send, and so to \<open>net.Listen\<close>, exactly when the address
  has no binding or some supervisor is running.
\<close>

lemma stopOld_blocked_iff:
  assumes "\<not> blocked w"
  shows "blocked (stopOld n addr w) \<longleftrightarrow> forwards w addr \<noteq> None \<and> supervisors w = []"
proof (cases "forwards w addr")
  case None
  with assms show ?thesis by (simp add: stopOld_None)
next
  case (Some ln)
  show ?thesis
  proof (cases "supervisors w = []")
    case True
    with Some show ?thesis by (simp add: stopOld_blocks)
  next
    case False
    with Some assms show ?thesis by (simp add: stopOld_Some)
  qed
qed

subsection \<open>C9: a payload that does not unmarshal\<close>

text \<open>
  C9: for a \<open>tcpip-forward\<close> or \<open>cancel-tcpip-forward\<close> request whose payload
  \<open>ssh.Unmarshal\<close> rejects, the handler logs, replies \<open>false\<close> with an empty
  payload, and nothing else happens: the registry, the closed and the created
  listeners, the supervisors and the sessions are as before, and the trace has no
  \<open>Close\<close>, \<open>Listen\<close>, \<open>SendStop\<close> or \<open>GoCheckAlive\<close>.
\<close>

theorem malformed_payload_rejected:
  assumes "Type req = ''tcpip-forward'' \<or> Type req = ''cancel-tcpip-forward''"
    and "UnmarshalAddrPort lib (Payload req) = None"
  shows "handleRequest lib sch req w =
           w\<lparr>trace := trace w @ [Log ''[SSHD] Unable to unmarshal payload'', Reply False []]\<rparr>"
  using assms
  by (auto simp: handleRequest_def tcpipForward_def cancelTcpipForward_def emit_def)

theorem malformed_payload_rejected_witness:
  "UnmarshalAddrPort sshWire [0, 0] = None \<and>
   handleRequest sshWire (listenSucceeds 0)
       \<lparr>Type = ''tcpip-forward'', WantReply = True, Payload = [0, 0]\<rparr> oneForward =
     oneForward\<lparr>trace := trace oneForward @
                   [Log ''[SSHD] Unable to unmarshal payload'', Reply False []]\<rparr>"
  using malformed_payload_rejected
    [of "\<lparr>Type = ''tcpip-forward'', WantReply = True, Payload = [0, 0]\<rparr>" sshWire
        "listenSucceeds 0" oneForward]
    short_payload
  by simp

subsection \<open>C5: keepalive and other request types\<close>

text \<open>
  C5: a request whose type is neither \<open>tcpip-forward\<close> nor
  \<open>cancel-tcpip-forward\<close> gets the reply \<open>true\<close> with an empty payload when its
  type contains \<open>keepalive\<close>; otherwise it is logged and gets no reply. Nothing
  else changes.
\<close>

theorem other_request_keepalive:
  assumes "Type req \<noteq> ''tcpip-forward''" and "Type req \<noteq> ''cancel-tcpip-forward''"
  shows "handleRequest lib sch req w =
           w\<lparr>trace := trace w @
                [if \<exists>pre post. Type req = pre @ ''keepalive'' @ post then Reply True []
                 else Log ''[SSHD] received out-of-band request: %+v'']\<rparr>"
  using assms by (simp add: handleRequest_def otherRequest_def emit_def Contains_iff)

theorem other_request_keepalive_witness:
  "handleRequest sshWire (listenSucceeds 0)
       \<lparr>Type = ''keepalive@openssh.com'', WantReply = True, Payload = []\<rparr> newSshServer =
     newSshServer\<lparr>trace := trace newSshServer @ [Reply True []]\<rparr> \<and>
   handleRequest sshWire (listenSucceeds 0)
       \<lparr>Type = ''env'', WantReply = True, Payload = []\<rparr> newSshServer =
     newSshServer\<lparr>trace := trace newSshServer @
                     [Log ''[SSHD] received out-of-band request: %+v'']\<rparr>"
proof -
  have k: "\<exists>pre post. ''keepalive@openssh.com'' = pre @ ''keepalive'' @ post"
    using Contains_iff[of "''keepalive@openssh.com''" "''keepalive''"] by simp
  have e: "\<not> (\<exists>pre post. ''env'' = pre @ ''keepalive'' @ post)"
    using Contains_iff[of "''env''" "''keepalive''"] by simp
  show ?thesis
    using other_request_keepalive
      [of "\<lparr>Type = ''keepalive@openssh.com'', WantReply = True, Payload = []\<rparr>" sshWire
          "listenSucceeds 0" newSshServer]
      other_request_keepalive
      [of "\<lparr>Type = ''env'', WantReply = True, Payload = []\<rparr>" sshWire
          "listenSucceeds 0" newSshServer]
      k e
    by simp
qed

subsection \<open>C8: cancel-tcpip-forward\<close>

text \<open>
  C8: a \<open>cancel-tcpip-forward\<close> request never changes the registry. When its
  payload unmarshals, the handler closes the listener of the binding of the
  requested address if there is one and does nothing at all if there is none: a
  cancel for an unknown address leaves the whole state as it is. Serving the same
  cancel a second time gives the state that the first one gave (the trace apart,
  which has the second \<open>Close\<close> or the second reply).
\<close>

theorem cancel_keeps_registry:
  assumes "Type req = ''cancel-tcpip-forward''"
  shows "forwards (handleRequest lib sch req w) = forwards w \<and>
         (\<forall>laddr lport. UnmarshalAddrPort lib (Payload req) = Some (laddr, lport) \<longrightarrow>
            handleRequest lib sch req w =
              (case forwards w (fmtAddr laddr lport) of
                 Some ln \<Rightarrow> w\<lparr>closed := insert ln (closed w), trace := trace w @ [Close ln]\<rparr>
               | None \<Rightarrow> w)) \<and>
         (handleRequest lib sch req (handleRequest lib sch req w))\<lparr>trace := []\<rparr> =
           (handleRequest lib sch req w)\<lparr>trace := []\<rparr>"
  using assms
  by (auto simp: handleRequest_def cancelTcpipForward_def emit_def lnClose_def
      split: option.splits)

theorem cancel_keeps_registry_witness:
  "forwards (handleRequest sshWire (listenSucceeds 0) (cancelReq 97 1) oneForward) =
     forwards oneForward \<and>
   handleRequest sshWire (listenSucceeds 0) (cancelReq 97 1) oneForward =
     oneForward\<lparr>closed := {0}, trace := trace oneForward @ [Close 0]\<rparr> \<and>
   handleRequest sshWire (listenSucceeds 0) (cancelReq 97 1) newSshServer = newSshServer"
proof -
  have t: "Type (cancelReq 97 1) = ''cancel-tcpip-forward''"
    by (simp add: cancelReq_def)
  have u: "UnmarshalAddrPort sshWire (Payload (cancelReq 97 1)) = Some (''a'', 1)"
    by (simp add: cancelReq_def forwardPayload_a1)
  have n: "forwards newSshServer ''[a]:1'' = None"
    by (simp add: newSshServer_def)
  from cancel_keeps_registry[OF t, of sshWire "listenSucceeds 0" oneForward]
    cancel_keeps_registry[OF t, of sshWire "listenSucceeds 0" newSshServer] u n
  show ?thesis
    by (simp add: fmtAddr_a1 oneForward_fields)
qed

subsection \<open>C2: the reply to tcpip-forward\<close>

text \<open>
  C2: a \<open>tcpip-forward\<close> request whose payload unmarshals, served by a handler
  that reaches \<open>net.Listen\<close> (the address has no binding, or a supervisor takes
  the stop signal), gets exactly one reply. When \<open>net.Listen\<close> fails the reply is
  \<open>false\<close> with an empty payload, the handler is not blocked and the loop goes on
  with the next request. When it succeeds the reply is \<open>true\<close> and its payload is
  the marshaled port of the request, whatever that port is, 0 included.
\<close>

theorem tcpip_forward_reply:
  assumes "Type req = ''tcpip-forward''"
    and "UnmarshalAddrPort lib (Payload req) = Some (laddr, lport)"
    and "\<not> blocked w"
    and "forwards w (fmtAddr laddr lport) = None \<or> supervisors w \<noteq> []"
  shows "repliesOf (trace (handleRequest lib sch req w)) =
           repliesOf (trace w) @
             [if listenOk sch then (True, MarshalPort lib lport) else (False, [])] \<and>
         \<not> blocked (handleRequest lib sch req w) \<and>
         handleRequests lib ((sch, req) # reqs) w =
           handleRequests lib reqs (handleRequest lib sch req w)"
proof (cases "forwards w (fmtAddr laddr lport)")
  case None
  from assms(1-3) show ?thesis
    by (simp add: handleRequest_def tcpipForward_def stopOld_None[OF None] Let_def emit_def
        netListen_def installNew_def repliesOf_append)
next
  case (Some ln)
  with assms(4) have s: "supervisors w \<noteq> []" by simp
  from assms(1-3) show ?thesis
    by (simp add: handleRequest_def tcpipForward_def stopOld_Some[OF Some s] Let_def emit_def
        netListen_def installNew_def repliesOf_append)
qed

theorem tcpip_forward_reply_witness:
  "UnmarshalAddrPort sshWire (Payload (tcpipForwardReq 97 0)) = Some (''a'', 0) \<and>
   repliesOf (trace (handleRequest sshWire (listenSucceeds 0) (tcpipForwardReq 97 0)
                       newSshServer)) = [(True, [0, 0, 0, 0])] \<and>
   repliesOf (trace (handleRequest sshWire (listenFails 0) (tcpipForwardReq 97 0)
                       newSshServer)) = [(False, [])]"
proof -
  have t: "Type (tcpipForwardReq 97 0) = ''tcpip-forward''"
    by (simp add: tcpipForwardReq_def)
  have u: "UnmarshalAddrPort sshWire (Payload (tcpipForwardReq 97 0)) = Some (''a'', 0)"
    by (simp add: tcpipForwardReq_def forwardPayload_a0)
  have b: "\<not> blocked newSshServer"
    by (simp add: newSshServer_def)
  have f: "forwards newSshServer (fmtAddr ''a'' 0) = None \<or> supervisors newSshServer \<noteq> []"
    by (simp add: newSshServer_def)
  have m: "MarshalPort sshWire 0 = [0, 0, 0, 0]"
    by (simp add: sshWire_def marshalUint32_def)
  from tcpip_forward_reply[OF t u b f, of "listenSucceeds 0" "[]"]
    tcpip_forward_reply[OF t u b f, of "listenFails 0" "[]"] u m
  show ?thesis
    by (simp add: listenSucceeds_def listenFails_def newSshServer_def)
qed

subsection \<open>C10: a failed bind after the old binding was stopped\<close>

text \<open>
  C10: a \<open>tcpip-forward\<close> request for an address that has a binding, with a
  supervisor taking the stop signal and \<open>net.Listen\<close> failing. The old listener
  is closed and the stop signal is sent before the reply \<open>false\<close>; when the reply
  is sent the registry is what it was, so it still maps the address to the
  listener that is now closed.
\<close>

theorem failed_rebind_keeps_stale_entry:
  assumes "Type req = ''tcpip-forward''"
    and "UnmarshalAddrPort lib (Payload req) = Some (laddr, lport)"
    and "forwards w (fmtAddr laddr lport) = Some ln"
    and "supervisors w \<noteq> []"
    and "\<not> listenOk sch"
    and "\<not> blocked w"
  shows "handleRequest lib sch req w =
           w\<lparr>closed := insert ln (closed w),
             supervisors := remove1 (supervisors w ! (pick sch mod length (supervisors w)))
                              (supervisors w),
             trace := trace w @
               [Lock, Log ''[SSHD] closing old socket'', Close ln, SendStop,
                Log ''[SSHD] stop keep alive'', Unlock, Listen (fmtAddr laddr lport) None,
                Log ''[SSHD] listen failed for %s %s'', Reply False []]\<rparr> \<and>
         forwards (handleRequest lib sch req w) (fmtAddr laddr lport) = Some ln \<and>
         ln \<in> closed (handleRequest lib sch req w)"
  using assms
  by (simp add: handleRequest_def tcpipForward_def stopOld_Some[OF assms(3,4)] Let_def emit_def)

theorem failed_rebind_keeps_stale_entry_witness:
  "forwards oneForward ''[a]:1'' = Some 0 \<and>
   forwards (handleRequest sshWire (listenFails 0) (tcpipForwardReq 97 1) oneForward) ''[a]:1'' =
     Some 0 \<and>
   0 \<in> closed (handleRequest sshWire (listenFails 0) (tcpipForwardReq 97 1) oneForward) \<and>
   supervisors (handleRequest sshWire (listenFails 0) (tcpipForwardReq 97 1) oneForward) = []"
proof -
  have t: "Type (tcpipForwardReq 97 1) = ''tcpip-forward''"
    by (simp add: tcpipForwardReq_def)
  have u: "UnmarshalAddrPort sshWire (Payload (tcpipForwardReq 97 1)) = Some (''a'', 1)"
    by (simp add: tcpipForwardReq_def forwardPayload_a1)
  have f: "forwards oneForward (fmtAddr ''a'' 1) = Some 0"
    by (simp add: fmtAddr_a1 oneForward_fields)
  have s: "supervisors oneForward \<noteq> []"
    by (simp add: oneForward_fields)
  have l: "\<not> listenOk (listenFails 0)"
    by (simp add: listenFails_def)
  have b: "\<not> blocked oneForward"
    by (simp add: oneForward_fields)
  from failed_rebind_keeps_stale_entry[OF t u f s l b]
  show ?thesis
    by (simp add: fmtAddr_a1 oneForward_fields)
qed


subsection \<open>C3: replacing a binding\<close>

text \<open>A first registration: the address has no binding and \<open>net.Listen\<close> succeeds.\<close>

lemma first_registration:
  assumes "Type req = ''tcpip-forward''"
    and "UnmarshalAddrPort lib (Payload req) = Some (laddr, lport)"
    and "forwards w (fmtAddr laddr lport) = None"
    and "listenOk sch"
    and "\<not> blocked w"
  shows "handleRequest lib sch req w =
           w\<lparr>forwards := (forwards w)(fmtAddr laddr lport \<mapsto> nextListener w),
             created := created w @ [(nextListener w, fmtAddr laddr lport)],
             supervisors := supervisors w @ [(nextListener w, fmtAddr laddr lport)],
             sessions := sessions w @ [(nextListener w, laddr, lport)],
             nextListener := Suc (nextListener w),
             trace := trace w @
               [Lock, Unlock,
                Listen (fmtAddr laddr lport) (Some (nextListener w)),
                Log ''[SSHD] tcpip-forward listening for %s'',
                Reply True (MarshalPort lib lport),
                GoForwardSession (nextListener w) laddr lport,
                GoCheckAlive (nextListener w) (fmtAddr laddr lport),
                Lock, Store (fmtAddr laddr lport) (nextListener w), Unlock]\<rparr>"
  using assms(1,2,4,5)
  by (simp add: handleRequest_def tcpipForward_def stopOld_None[OF assms(3)] Let_def emit_def
      netListen_def installNew_def)

text \<open>
  A replacement, in the order of the handler: the old listener is closed and the
  stop signal is sent and taken before \<open>net.Listen\<close>, before the new supervisor is
  started and before the new binding is stored. The supervisor that leaves is the
  one the schedule picks among all the running ones.
\<close>

lemma replacement_order:
  assumes "Type req = ''tcpip-forward''"
    and "UnmarshalAddrPort lib (Payload req) = Some (laddr, lport)"
    and "forwards w (fmtAddr laddr lport) = Some old"
    and "supervisors w \<noteq> []"
    and "listenOk sch"
    and "\<not> blocked w"
  shows "handleRequest lib sch req w =
           w\<lparr>forwards := (forwards w)(fmtAddr laddr lport \<mapsto> nextListener w),
             closed := insert old (closed w),
             created := created w @ [(nextListener w, fmtAddr laddr lport)],
             supervisors := remove1 (supervisors w ! (pick sch mod length (supervisors w)))
                              (supervisors w) @ [(nextListener w, fmtAddr laddr lport)],
             sessions := sessions w @ [(nextListener w, laddr, lport)],
             nextListener := Suc (nextListener w),
             trace := trace w @
               [Lock, Log ''[SSHD] closing old socket'', Close old, SendStop,
                Log ''[SSHD] stop keep alive'', Unlock,
                Listen (fmtAddr laddr lport) (Some (nextListener w)),
                Log ''[SSHD] tcpip-forward listening for %s'',
                Reply True (MarshalPort lib lport),
                GoForwardSession (nextListener w) laddr lport,
                GoCheckAlive (nextListener w) (fmtAddr laddr lport),
                Lock, Store (fmtAddr laddr lport) (nextListener w), Unlock]\<rparr>"
  using assms(1,2,5,6)
  by (simp add: handleRequest_def tcpipForward_def stopOld_Some[OF assms(3,4)] Let_def emit_def
      netListen_def installNew_def)

text \<open>
  On a fresh server, \<open>tcpip-forward\<close> twice for the same address, both binds
  succeeding: the only running supervisor is the prior one, it takes the signal,
  and one listener is bound for the address, the second.
\<close>

lemma replacement_on_fresh_server:
  assumes "Type req = ''tcpip-forward''"
    and "UnmarshalAddrPort lib (Payload req) = Some (laddr, lport)"
    and "listenOk sch1" and "listenOk sch2"
  shows "boundFor (handleRequests lib [(sch1, req), (sch2, req)] newSshServer)
           (fmtAddr laddr lport) = [1] \<and>
         supervisors (handleRequests lib [(sch1, req), (sch2, req)] newSshServer) =
           [(1, fmtAddr laddr lport)] \<and>
         forwards (handleRequests lib [(sch1, req), (sch2, req)] newSshServer) =
           [fmtAddr laddr lport \<mapsto> 1]"
proof -
  let ?w1 = "handleRequest lib sch1 req newSshServer"
  have w1: "?w1 = newSshServer\<lparr>forwards := [fmtAddr laddr lport \<mapsto> 0],
             created := [(0, fmtAddr laddr lport)],
             supervisors := [(0, fmtAddr laddr lport)],
             sessions := [(0, laddr, lport)],
             nextListener := Suc 0,
             trace :=
               [Lock, Unlock,
                Listen (fmtAddr laddr lport) (Some 0),
                Log ''[SSHD] tcpip-forward listening for %s'',
                Reply True (MarshalPort lib lport),
                GoForwardSession 0 laddr lport,
                GoCheckAlive 0 (fmtAddr laddr lport),
                Lock, Store (fmtAddr laddr lport) 0, Unlock]\<rparr>"
    using first_registration[OF assms(1,2) _ assms(3), of newSshServer]
    by (simp add: newSshServer_def)
  have b1: "\<not> blocked ?w1" unfolding w1 by (simp add: newSshServer_def)
  have f1: "forwards ?w1 (fmtAddr laddr lport) = Some 0" by (simp add: w1)
  have s1: "supervisors ?w1 \<noteq> []" by (simp add: w1)
  note w2 = replacement_order[OF assms(1,2) f1 s1 assms(4) b1]
  have e: "handleRequests lib [(sch1, req), (sch2, req)] newSshServer =
             handleRequest lib sch2 req ?w1"
    using b1 by (simp add: Let_def)
  show ?thesis
    unfolding e w2 unfolding w1 by (simp add: boundFor_def newSshServer_def)
qed

text \<open>
  With a binding for the address and no supervisor running (the state that a
  failed bind leaves, see C10), the send never ends: the handler stays blocked
  with the mutex held, sends no reply and starts no supervisor.
\<close>

lemma replacement_without_supervisor_blocks:
  assumes "Type req = ''tcpip-forward''"
    and "UnmarshalAddrPort lib (Payload req) = Some (laddr, lport)"
    and "forwards w (fmtAddr laddr lport) = Some old"
    and "supervisors w = []"
  shows "handleRequest lib sch req w =
           w\<lparr>closed := insert old (closed w), blocked := True,
             trace := trace w @
               [Lock, Log ''[SSHD] closing old socket'', Close old, SendStop]\<rparr>"
  using assms(1,2)
  by (simp add: handleRequest_def tcpipForward_def stopOld_blocks[OF assms(3,4)] Let_def)

text \<open>
  C3 says that the supervisor of the binding that is replaced takes the stop
  signal before the new supervisor is started. The code sends the signal on the
  one channel \<open>s.checkAliveStop\<close> that all supervisors read. With bindings for
  \<open>[a]:1\<close> (listener 0) and \<open>[b]:2\<close> (listener 1), a third request for \<open>[a]:1\<close>
  whose signal the supervisor of \<open>[b]:2\<close> takes leaves the prior supervisor of
  \<open>[a]:1\<close> running beside the new one, on the closed listener 0, and leaves
  \<open>[b]:2\<close> registered and bound with no supervisor. One listener is bound for
  \<open>[a]:1\<close>, the new one.
\<close>

theorem stop_taken_by_other_supervisor:
  "supervisors twoForwards = [(0, ''[a]:1''), (1, ''[b]:2'')] \<and>
   forwards twoForwards ''[a]:1'' = Some 0 \<and>
   supervisors (handleRequest sshWire (listenSucceeds 1) (tcpipForwardReq 97 1) twoForwards) =
     [(0, ''[a]:1''), (2, ''[a]:1'')] \<and>
   0 \<in> closed (handleRequest sshWire (listenSucceeds 1) (tcpipForwardReq 97 1) twoForwards) \<and>
   forwards (handleRequest sshWire (listenSucceeds 1) (tcpipForwardReq 97 1) twoForwards)
     ''[b]:2'' = Some 1 \<and>
   boundFor (handleRequest sshWire (listenSucceeds 1) (tcpipForwardReq 97 1) twoForwards)
     ''[b]:2'' = [1] \<and>
   boundFor (handleRequest sshWire (listenSucceeds 1) (tcpipForwardReq 97 1) twoForwards)
     ''[a]:1'' = [2]"
  unfolding twoForwards_def by code_simp

section \<open>Properties of the supervisor\<close>

lemma checkAliveLoop_probe_error:
  "checkAliveLoop ln addr (replicate n (TickerC False) @ TickerC True # cs) w =
     w\<lparr>forwards := (forwards w)(addr := None), closed := insert ln (closed w),
       supervisors := remove1 (ln, addr) (supervisors w),
       trace := trace w @ replicate n (Probe False) @
         [Probe True, Log ''[SSHD] forward endpoint not available anymore. Closing socket'',
          Close ln, Lock, Delete addr, Unlock]\<rparr>"
proof (induction n arbitrary: w)
  case 0
  show ?case
    by (simp add: emit_def lnClose_def deleteForward_def supervisorReturns_def fun_upd_def)
next
  case (Suc n)
  show ?case by (simp add: Suc emit_def replicate_app_Cons_same)
qed

lemma checkAliveLoop_stop:
  "checkAliveLoop ln addr (replicate n (TickerC False) @ CheckAliveStop # cs) w =
     w\<lparr>supervisors := remove1 (ln, addr) (supervisors w),
       trace := trace w @ replicate n (Probe False) @ [Log ''[SSHD] stop keep alive'']\<rparr>"
proof (induction n arbitrary: w)
  case 0
  show ?case by (simp add: emit_def supervisorReturns_def)
next
  case (Suc n)
  show ?case by (simp add: Suc emit_def replicate_app_Cons_same)
qed

text \<open>While every probe is answered the supervisor keeps waiting and changes nothing.\<close>

lemma checkAliveLoop_running:
  "checkAliveLoop ln addr (replicate n (TickerC False)) w =
     w\<lparr>trace := trace w @ replicate n (Probe False)\<rparr>"
proof (induction n arbitrary: w)
  case 0
  show ?case by simp
next
  case (Suc n)
  show ?case by (simp add: Suc emit_def replicate_app_Cons_same)
qed

text \<open>Every run is of one of these three kinds.\<close>

lemma selectCases_shape:
  "cs = replicate (length cs) (TickerC False) \<or>
   (\<exists>n rest. cs = replicate n (TickerC False) @ TickerC True # rest) \<or>
   (\<exists>n rest. cs = replicate n (TickerC False) @ CheckAliveStop # rest)"
proof (induction cs)
  case Nil
  show ?case by simp
next
  case (Cons c cs)
  show ?case
  proof (cases c)
    case CheckAliveStop
    then have "c # cs = replicate 0 (TickerC False) @ CheckAliveStop # cs" by simp
    then show ?thesis by blast
  next
    case (TickerC err)
    show ?thesis
    proof (cases err)
      case True
      with TickerC have "c # cs = replicate 0 (TickerC False) @ TickerC True # cs" by simp
      then show ?thesis by blast
    next
      case False
      with TickerC have c: "c = TickerC False" by simp
      from Cons consider "cs = replicate (length cs) (TickerC False)"
        | n rest where "cs = replicate n (TickerC False) @ TickerC True # rest"
        | n rest where "cs = replicate n (TickerC False) @ CheckAliveStop # rest"
        by blast
      then show ?thesis
      proof cases
        case 1
        then have "c # cs = replicate (length (c # cs)) (TickerC False)"
          using c by simp
        then show ?thesis by blast
      next
        case 2
        then have "c # cs = replicate (Suc n) (TickerC False) @ TickerC True # rest"
          using c by simp
        then show ?thesis by blast
      next
        case 3
        then have "c # cs = replicate (Suc n) (TickerC False) @ CheckAliveStop # rest"
          using c by simp
        then show ?thesis by blast
      qed
    qed
  qed
qed

subsection \<open>C4: the two ways a supervisor ends\<close>

text \<open>
  C4: a supervisor whose probe fails, after any number of answered probes, logs,
  closes its listener, then locks the mutex, deletes the registry entry of its
  address and unlocks, and then returns. A supervisor that takes a stop signal
  logs and returns: the registry and the set of closed listeners are as before,
  and its part of the trace has no \<open>Close\<close>, \<open>Lock\<close> or \<open>Delete\<close>.
\<close>

theorem checkAliveFun_exits:
  "checkAliveFun ln addr (replicate n (TickerC False) @ TickerC True # cs) w =
     w\<lparr>forwards := (forwards w)(addr := None), closed := insert ln (closed w),
       supervisors := remove1 (ln, addr) (supervisors w),
       trace := trace w @ Log ''[SSHD] starting check for forward availability'' #
         replicate n (Probe False) @
         [Probe True, Log ''[SSHD] forward endpoint not available anymore. Closing socket'',
          Close ln, Lock, Delete addr, Unlock]\<rparr> \<and>
   checkAliveFun ln addr (replicate n (TickerC False) @ CheckAliveStop # cs) w =
     w\<lparr>supervisors := remove1 (ln, addr) (supervisors w),
       trace := trace w @ Log ''[SSHD] starting check for forward availability'' #
         replicate n (Probe False) @ [Log ''[SSHD] stop keep alive'']\<rparr>"
  by (simp add: checkAliveFun_def checkAliveLoop_probe_error checkAliveLoop_stop emit_def)

theorem checkAliveFun_exits_witness:
  "forwards (checkAliveFun 0 ''[a]:1'' [TickerC False, TickerC True] oneForward) ''[a]:1'' =
     None \<and>
   closed (checkAliveFun 0 ''[a]:1'' [TickerC False, TickerC True] oneForward) = {0} \<and>
   supervisors (checkAliveFun 0 ''[a]:1'' [TickerC False, TickerC True] oneForward) = [] \<and>
   forwards (checkAliveFun 0 ''[a]:1'' [TickerC False, CheckAliveStop] oneForward) ''[a]:1'' =
     Some 0 \<and>
   closed (checkAliveFun 0 ''[a]:1'' [TickerC False, CheckAliveStop] oneForward) = {} \<and>
   supervisors (checkAliveFun 0 ''[a]:1'' [TickerC False, CheckAliveStop] oneForward) = []"
  using checkAliveFun_exits[of 0 "''[a]:1''" "Suc 0" "[]" oneForward]
  by (simp add: oneForward_fields)

section \<open>Properties of the channel loop\<close>

lemma handleChannels_nth:
  "i < length chans \<Longrightarrow> handleChannels chans ! i = handleChannel (chans ! i)"
  by (induction chans arbitrary: i) (auto simp: nth_Cons split: nat.splits)

subsection \<open>C6: unknown channel types\<close>

text \<open>
  C6: every channel of the loop whose type is neither \<open>session\<close> nor
  \<open>direct-tcpip\<close> is rejected with the reason \<open>UnknownChannelType\<close> and the
  message \<open>unknown channel type:\<close>, a space and the type.
\<close>

theorem unknown_channel_type_rejected:
  assumes "i < length chans"
    and "ChannelType (chans ! i) \<noteq> ''session''"
    and "ChannelType (chans ! i) \<noteq> ''direct-tcpip''"
  shows "handleChannels chans ! i =
           Reject UnknownChannelType (''unknown channel type: '' @ ChannelType (chans ! i))"
  using assms by (simp add: handleChannels_nth handleChannel_def)

theorem unknown_channel_type_rejected_witness:
  "handleChannels [\<lparr>ChannelType = ''session'', ExtraData = []\<rparr>,
                   \<lparr>ChannelType = ''x11'', ExtraData = []\<rparr>] ! 1 =
     Reject UnknownChannelType ''unknown channel type: x11''"
  using unknown_channel_type_rejected
    [of 1 "[\<lparr>ChannelType = ''session'', ExtraData = []\<rparr>,
            \<lparr>ChannelType = ''x11'', ExtraData = []\<rparr>]"]
  by simp


end
